theory Spec2Isabelle
  imports Complex_Main "HOL-Library.Code_Target_Nat"
begin

text \<open>
  The state and interaction logic of the dashboard component \<open>CloudDependencyExplorer\<close>:
  the catalog of companies, the search and provider filters, the provider counts with
  the Big 3 percentage, and the handler that adds a company after asking the detection
  endpoint. React state is a record passed explicitly; the asynchronous handler is the
  list of its effects in program order, applied to the state it starts from.
\<close>

section \<open>JavaScript strings\<close>

text \<open>
  A string is the list of its UTF-16 code units, each a number below 65536; \<open>str\<close>
  gives the string of an ASCII literal. The methods below work on code units, as the
  methods of \<open>String.prototype\<close> do. \<open>toLowerCase\<close> and \<open>toUpperCase\<close> follow the
  Unicode case tables of the platform, which are no part of the component: the functions
  that call them take them as parameters.
\<close>

type_synonym jsstring = "nat list"

definition str :: "string \<Rightarrow> jsstring" where
  "str s = map of_char s"

text \<open>
  The code units \<open>trim\<close> removes: the WhiteSpace and LineTerminator code points of
  ECMAScript (tab, vertical tab, form feed, space, no-break space, the byte order mark, the
  space separators of Unicode; line feed, carriage return, line and paragraph separator).
\<close>

definition isWhiteSpace :: "nat \<Rightarrow> bool" where
  "isWhiteSpace u =
     (u \<in> {9, 10, 11, 12, 13, 32, 160, 5760, 8232, 8233, 8239, 8287, 12288, 65279}
      \<or> (8192 \<le> u \<and> u \<le> 8202))"

definition trim :: "jsstring \<Rightarrow> jsstring" where
  "trim s = rev (dropWhile isWhiteSpace (rev (dropWhile isWhiteSpace s)))"

text \<open>\<open>s.startsWith(p)\<close>\<close>

definition startsWith :: "jsstring \<Rightarrow> jsstring \<Rightarrow> bool" where
  "startsWith s p = (take (length p) s = p)"

text \<open>\<open>s.includes(p)\<close>: \<open>p\<close> occurs in \<open>s\<close> at some position.\<close>

fun js_includes :: "jsstring \<Rightarrow> jsstring \<Rightarrow> bool" where
  "js_includes [] p = (p = [])"
| "js_includes (c # cs) p = (startsWith (c # cs) p \<or> js_includes cs p)"

text \<open>
  \<open>s.replace(p, r)\<close> with a string pattern: the first occurrence of \<open>p\<close> in \<open>s\<close>,
  wherever it is, is replaced by \<open>r\<close>; without an occurrence \<open>s\<close> is returned.
\<close>

fun replace :: "jsstring \<Rightarrow> jsstring \<Rightarrow> jsstring \<Rightarrow> jsstring" where
  "replace [] p r = (if p = [] then r else [])"
| "replace (c # cs) p r =
     (if startsWith (c # cs) p then r @ drop (length p) (c # cs) else c # replace cs p r)"

text \<open>
  \<open>s.split(sep)\<close> for a separator of one code unit: the pieces between the separators,
  in order; the result is never empty.
\<close>

fun js_split :: "jsstring \<Rightarrow> nat \<Rightarrow> jsstring list" where
  "js_split [] sep = [[]]"
| "js_split (c # cs) sep =
     (if c = sep then [] # js_split cs sep
      else (case js_split cs sep of [] \<Rightarrow> [[c]] | p # ps \<Rightarrow> (c # p) # ps))"

text \<open>\<open>s.charAt(i)\<close> is the empty string out of range; \<open>s.slice(i)\<close> drops \<open>i\<close> code units.\<close>

definition charAt :: "jsstring \<Rightarrow> nat \<Rightarrow> jsstring" where
  "charAt s i = take 1 (drop i s)"

definition slice :: "jsstring \<Rightarrow> nat \<Rightarrow> jsstring" where
  "slice s i = drop i s"

section \<open>Data model\<close>

text \<open>
  A value read from the detector's JSON answer at \<open>result.provider\<close>: a string, or
  \<open>undefined\<close> when the field is absent. Seed companies carry strings.
\<close>

datatype jsval = Undefined | Str jsstring

record company =
  name :: jsstring
  symbol :: jsstring
  domain :: jsstring
  provider :: jsval

text \<open>The component's state: one field for each \<open>useState\<close> of the source.\<close>

record state =
  searchQuery :: jsstring
  selectedProvider :: "jsstring option"
  customCompanies :: "company list"
  newCompanyUrl :: jsstring
  isDetecting :: bool
  detectionError :: "jsstring option"
  menuOpen :: bool
  hoveredProvider :: "jsstring option"

text \<open>
  Truthiness of a \<open>string | null\<close> value, as tested by \<open>!selectedProvider\<close> and
  \<open>if (hoveredProvider)\<close>: \<open>null\<close> and the empty string are falsy.
\<close>

fun truthy :: "jsstring option \<Rightarrow> bool" where
  "truthy None = False"
| "truthy (Some s) = (s \<noteq> [])"

text \<open>\<open>company.provider === p\<close> for \<open>p\<close> of type \<open>string | null\<close>.\<close>

fun strictEq :: "jsval \<Rightarrow> jsstring option \<Rightarrow> bool" where
  "strictEq v None = False"
| "strictEq v (Some p) = (v = Str p)"

text \<open>
  The seed catalog \<open>defaultCompanies\<close> is imported from \<open>lib/company-data\<close>; it is a
  parameter of every function that reads it.
\<close>

definition allCompanies :: "company list \<Rightarrow> state \<Rightarrow> company list" where
  "allCompanies defaultCompanies st = defaultCompanies @ customCompanies st"

definition filteredCompanies ::
  "(jsstring \<Rightarrow> jsstring) \<Rightarrow> company list \<Rightarrow> state \<Rightarrow> company list" where
  "filteredCompanies toLowerCase defaultCompanies st =
     filter (\<lambda>c.
        let matchesSearch = js_includes (toLowerCase (name c)) (toLowerCase (searchQuery st));
            matchesProvider = (\<not> truthy (selectedProvider st) \<or> strictEq (provider c) (selectedProvider st))
        in matchesSearch \<and> matchesProvider)
      (allCompanies defaultCompanies st)"

definition displayedCompanies ::
  "(jsstring \<Rightarrow> jsstring) \<Rightarrow> company list \<Rightarrow> state \<Rightarrow> company list" where
  "displayedCompanies toLowerCase defaultCompanies st =
     (if truthy (hoveredProvider st)
      then filter (\<lambda>c. strictEq (provider c) (hoveredProvider st)) (allCompanies defaultCompanies st)
      else filteredCompanies toLowerCase defaultCompanies st)"

section \<open>Aggregation\<close>

text \<open>
  The \<open>counts\<close> object is a plain object literal. Its own properties are an association
  list in the order \<open>Object.entries\<close> lists them: array-index keys first, in numeric
  order, then the other keys in the order of their creation. A value is a number or, once
  a \<open>+\<close> has met something that is no number, a string. A key that is not an own
  property is looked up in \<open>Object.prototype\<close>.
\<close>

datatype jsprop = PNum nat | PStr jsstring

type_synonym counts = "(jsstring \<times> jsprop) list"

definition objectPrototypeNames :: "jsstring list" where
  "objectPrototypeNames =
     map str [''constructor'', ''__defineGetter__'', ''__defineSetter__'', ''hasOwnProperty'',
       ''__lookupGetter__'', ''__lookupSetter__'', ''isPrototypeOf'', ''propertyIsEnumerable'',
       ''toString'', ''valueOf'', ''__proto__'', ''toLocaleString'']"

fun toPropertyKey :: "jsval \<Rightarrow> jsstring" where
  "toPropertyKey (Str s) = s"
| "toPropertyKey Undefined = str ''undefined''"

text \<open>
  \<open>counts[k]\<close>: an own property, or a member of \<open>Object.prototype\<close> (a function or an
  object), or \<open>undefined\<close>.
\<close>

datatype lookup = NotFound | Own jsprop | Inherited

definition get_count :: "counts \<Rightarrow> jsstring \<Rightarrow> lookup" where
  "get_count cs k =
     (case map_of cs k of
        Some v \<Rightarrow> Own v
      | None \<Rightarrow> if k \<in> set objectPrototypeNames then Inherited else NotFound)"

text \<open>An array index: a canonical decimal numeral below \<open>2^32 - 1\<close>.\<close>

definition indexValue :: "jsstring \<Rightarrow> nat" where
  "indexValue k = foldl (\<lambda>n d. 10 * n + (d - 48)) 0 k"

definition isArrayIndex :: "jsstring \<Rightarrow> bool" where
  "isArrayIndex k =
     (k \<noteq> [] \<and> list_all (\<lambda>d. 48 \<le> d \<and> d \<le> 57) k \<and> (k = [48] \<or> hd k \<noteq> 48)
      \<and> indexValue k < 4294967295)"

text \<open>A new own property takes its place in the order of the keys.\<close>

fun insertNew :: "counts \<Rightarrow> jsstring \<Rightarrow> jsprop \<Rightarrow> counts" where
  "insertNew [] k v = [(k, v)]"
| "insertNew ((k', v') # cs) k v =
     (if isArrayIndex k \<and> (\<not> isArrayIndex k' \<or> indexValue k < indexValue k')
      then (k, v) # (k', v') # cs
      else (k', v') # insertNew cs k v)"

text \<open>
  \<open>counts[k] = v\<close> for a number or string \<open>v\<close>: the own property is overwritten where it
  is, or created. For the key \<open>__proto__\<close> the assignment runs the setter of
  \<open>Object.prototype\<close>, which ignores a value that is no object: nothing is stored.
\<close>

definition set_count :: "counts \<Rightarrow> jsstring \<Rightarrow> jsprop \<Rightarrow> counts" where
  "set_count cs k v =
     (if k = str ''__proto__'' then cs
      else if k \<in> fst ` set cs then map (\<lambda>(k', v'). if k' = k then (k, v) else (k', v')) cs
      else insertNew cs k v)"

text \<open>
  \<open>(counts[k] || 0) + 1\<close>. A number is incremented. A string has \<open>"1"\<close> appended. A
  member of \<open>Object.prototype\<close> is converted to a string first; \<open>protoText k\<close> is that
  text, which the engine chooses.
\<close>

definition plusOne :: "(jsstring \<Rightarrow> jsstring) \<Rightarrow> jsstring \<Rightarrow> lookup \<Rightarrow> jsprop" where
  "plusOne protoText k l =
     (case l of
        NotFound \<Rightarrow> PNum 1
      | Own (PNum n) \<Rightarrow> PNum (n + 1)
      | Own (PStr s) \<Rightarrow> if s = [] then PNum 1 else PStr (s @ str ''1'')
      | Inherited \<Rightarrow> PStr (protoText k @ str ''1''))"

text \<open>The callback of the \<open>forEach\<close> loop, line 51.\<close>

definition countStep :: "(jsstring \<Rightarrow> jsstring) \<Rightarrow> counts \<Rightarrow> company \<Rightarrow> counts" where
  "countStep protoText cs c =
     set_count cs (toPropertyKey (provider c))
       (plusOne protoText (toPropertyKey (provider c)) (get_count cs (toPropertyKey (provider c))))"

definition providerCounts ::
  "(jsstring \<Rightarrow> jsstring) \<Rightarrow> company list \<Rightarrow> state \<Rightarrow> counts" where
  "providerCounts protoText defaultCompanies st =
     foldl (countStep protoText) [] (allCompanies defaultCompanies st)"

section \<open>Entry ingestion\<close>

text \<open>
  The external collaborators of \<open>handleAddCompany\<close> are parameters:
  \<^item> \<open>urlHostname u\<close> is \<open>new URL(u).hostname\<close>, \<open>None\<close> when the constructor throws;
  \<^item> \<open>detect u\<close> is what the request to the detection endpoint with body \<open>{url: u}\<close>
    comes to.
\<close>

datatype response =
    Rejected             \<comment> \<open>\<open>fetch\<close> throws\<close>
  | NotOk                \<comment> \<open>\<open>response.ok\<close> is false\<close>
  | BadBody              \<comment> \<open>\<open>response.json()\<close> throws, or reading \<open>result.provider\<close> does\<close>
  | Body jsval           \<comment> \<open>the value of \<open>result.provider\<close>\<close>

text \<open>The effects of the handler, in program order.\<close>

datatype action =
    SetIsDetecting bool
  | SetDetectionError "jsstring option"
  | Fetch jsstring
  | AppendCustomCompany company
  | SetNewCompanyUrl jsstring
  | ConsoleError

text \<open>
  Lines 63-68: the domain of the trimmed input. \<open>None\<close> when \<open>new URL\<close> throws.
\<close>

definition extractDomain :: "(jsstring \<Rightarrow> jsstring option) \<Rightarrow> jsstring \<Rightarrow> jsstring option" where
  "extractDomain urlHostname url =
     (let d = trim url in
      if startsWith d (str ''http://'') \<or> startsWith d (str ''https://'')
      then (case urlHostname d of None \<Rightarrow> None | Some h \<Rightarrow> Some (replace h (str ''www.'') []))
      else Some (replace d (str ''www.'') []))"

text \<open>Lines 90-100: the new entry for a domain and the detector's answer.\<close>

definition newCompany :: "(jsstring \<Rightarrow> jsstring) \<Rightarrow> jsstring \<Rightarrow> jsval \<Rightarrow> company option" where
  "newCompany toUpperCase d p =
     (case js_split d 46 of
        [] \<Rightarrow> None
      | n # _ \<Rightarrow>
          Some \<lparr> name = toUpperCase (charAt n 0) @ slice n 1,
                 symbol = str ''CUSTOM'',
                 domain = d,
                 provider = p \<rparr>)"

text \<open>The \<open>catch\<close> block.\<close>

definition catchActions :: "action list" where
  "catchActions =
     [ConsoleError,
      SetDetectionError (Some (str ''Failed to detect cloud provider. Please try again.''))]"

definition handleAddCompanyActions ::
  "(jsstring \<Rightarrow> jsstring) \<Rightarrow> company list \<Rightarrow> (jsstring \<Rightarrow> jsstring option) \<Rightarrow>
   (jsstring \<Rightarrow> response) \<Rightarrow> state \<Rightarrow> action list" where
  "handleAddCompanyActions toUpperCase defaultCompanies urlHostname detect st =
     (if trim (newCompanyUrl st) = [] then []
      else
        [SetIsDetecting True, SetDetectionError None] @
        (case extractDomain urlHostname (newCompanyUrl st) of
           None \<Rightarrow> catchActions
         | Some d \<Rightarrow>
             if list_ex (\<lambda>c. domain c = d) (allCompanies defaultCompanies st)
             then [SetDetectionError (Some (str ''Company already exists'')), SetIsDetecting False]
             else
               Fetch (trim (newCompanyUrl st)) #
               (case detect (trim (newCompanyUrl st)) of
                  Body p \<Rightarrow>
                    (case newCompany toUpperCase d p of
                       None \<Rightarrow> catchActions
                     | Some c \<Rightarrow> [AppendCustomCompany c, SetNewCompanyUrl []])
                | _ \<Rightarrow> catchActions)) @
        [SetIsDetecting False])"

fun applyAction :: "state \<Rightarrow> action \<Rightarrow> state" where
  "applyAction st (SetIsDetecting b) = st\<lparr>isDetecting := b\<rparr>"
| "applyAction st (SetDetectionError e) = st\<lparr>detectionError := e\<rparr>"
| "applyAction st (Fetch u) = st"
| "applyAction st (AppendCustomCompany c) = st\<lparr>customCompanies := customCompanies st @ [c]\<rparr>"
| "applyAction st (SetNewCompanyUrl u) = st\<lparr>newCompanyUrl := u\<rparr>"
| "applyAction st ConsoleError = st"

definition handleAddCompany ::
  "(jsstring \<Rightarrow> jsstring) \<Rightarrow> company list \<Rightarrow> (jsstring \<Rightarrow> jsstring option) \<Rightarrow>
   (jsstring \<Rightarrow> response) \<Rightarrow> state \<Rightarrow> state" where
  "handleAddCompany toUpperCase defaultCompanies urlHostname detect st =
     foldl applyAction st
       (handleAddCompanyActions toUpperCase defaultCompanies urlHostname detect st)"


section \<open>JavaScript numbers\<close>

text \<open>
  A Number is an IEEE 754 binary64 value: not-a-number, an infinity (\<open>Inf True\<close> is
  the positive one) or a finite value, given by the rational it denotes. The sign of zero
  is not represented; every zero of the component is a positive zero. Array lengths and
  the counts of \<open>providerCounts\<close> are integers far below \<open>2^53\<close> and are Numbers as
  they are.
\<close>

datatype jsnum = NaN | Inf bool | Num rat

text \<open>The number of binary digits of a positive integer.\<close>

function bitLength :: "int \<Rightarrow> nat" where
  "bitLength n = (if n \<le> 0 then 0 else Suc (bitLength (n div 2)))"
  by pat_completeness auto
termination
  by (relation "measure nat") auto

declare bitLength.simps [simp del]

text \<open>For \<open>q > 0\<close>, the exponent \<open>e\<close> with \<open>2^e \<le> q < 2^(e+1)\<close>.\<close>

definition floorLog2 :: "rat \<Rightarrow> int" where
  "floorLog2 q =
     (if 1 \<le> q then int (bitLength \<lfloor>q\<rfloor>) - 1
      else - int (bitLength (\<lceil>1 / q\<rceil> - 1)))"

definition pow2 :: "int \<Rightarrow> rat" where
  "pow2 e = (if 0 \<le> e then 2 ^ nat e else 1 / 2 ^ nat (- e))"

definition roundHalfEven :: "rat \<Rightarrow> int" where
  "roundHalfEven x =
     (let f = \<lfloor>x\<rfloor>; r = x - of_int f
      in if r < 1 / 2 then f else if 1 / 2 < r then f + 1 else if even f then f else f + 1)"

text \<open>
  The binary64 value of a real result: the nearest multiple of the unit in the last of
  53 significant bits (of \<open>2^-1074\<close> for subnormal values), ties to the even one; a result
  of magnitude \<open>2^1024\<close> or more is an infinity.
\<close>

definition roundDouble :: "rat \<Rightarrow> jsnum" where
  "roundDouble q =
     (if q = 0 then Num 0
      else
        let e = max (floorLog2 \<bar>q\<bar>) (- 1022);
            ulp = pow2 (e - 52);
            v = of_int (roundHalfEven (\<bar>q\<bar> / ulp)) * ulp
        in if 2 ^ 1024 \<le> v then Inf (0 < q) else Num (sgn q * v))"

text \<open>The operators \<open>+\<close>, \<open>*\<close> and \<open>/\<close> on Numbers, and \<open>Math.round\<close>.\<close>

fun js_add :: "jsnum \<Rightarrow> jsnum \<Rightarrow> jsnum" where
  "js_add (Num a) (Num b) = roundDouble (a + b)"
| "js_add (Inf s) (Inf t) = (if s = t then Inf s else NaN)"
| "js_add (Inf s) (Num b) = Inf s"
| "js_add (Num a) (Inf t) = Inf t"
| "js_add _ _ = NaN"

fun js_mul :: "jsnum \<Rightarrow> jsnum \<Rightarrow> jsnum" where
  "js_mul (Num a) (Num b) = roundDouble (a * b)"
| "js_mul (Inf s) (Inf t) = Inf (s = t)"
| "js_mul (Inf s) (Num b) = (if b = 0 then NaN else Inf (s = (0 < b)))"
| "js_mul (Num a) (Inf t) = (if a = 0 then NaN else Inf ((0 < a) = t))"
| "js_mul _ _ = NaN"

fun js_div :: "jsnum \<Rightarrow> jsnum \<Rightarrow> jsnum" where
  "js_div (Num a) (Num b) =
     (if b = 0 then (if a = 0 then NaN else Inf (0 < a)) else roundDouble (a / b))"
| "js_div (Inf s) (Inf t) = NaN"
| "js_div (Inf s) (Num b) = Inf (s = (0 \<le> b))"
| "js_div (Num a) (Inf t) = Num 0"
| "js_div _ _ = NaN"

fun js_round :: "jsnum \<Rightarrow> jsnum" where
  "js_round (Num a) = Num (of_int \<lfloor>a + 1 / 2\<rfloor>)"
| "js_round x = x"

text \<open>
  A value in the arithmetic of lines 383-385: a Number, or a string once a count is no
  number. \<open>numberToString\<close> and \<open>stringToNumber\<close> are the conversions of the platform
  between the two.
\<close>

datatype jsv = VNum jsnum | VStr jsstring

text \<open>\<open>providerCounts[k] || 0\<close>; a member of \<open>Object.prototype\<close> stands by its text.\<close>

definition countOrZero :: "(jsstring \<Rightarrow> jsstring) \<Rightarrow> counts \<Rightarrow> jsstring \<Rightarrow> jsv" where
  "countOrZero protoText pc k =
     (case get_count pc k of
        NotFound \<Rightarrow> VNum (Num 0)
      | Own (PNum n) \<Rightarrow> VNum (Num (of_nat n))
      | Own (PStr s) \<Rightarrow> if s = [] then VNum (Num 0) else VStr s
      | Inherited \<Rightarrow> VStr (protoText k))"

text \<open>The operator \<open>+\<close>: addition of two Numbers, concatenation otherwise.\<close>

fun js_plus :: "(jsnum \<Rightarrow> jsstring) \<Rightarrow> jsv \<Rightarrow> jsv \<Rightarrow> jsv" where
  "js_plus numberToString (VNum a) (VNum b) = VNum (js_add a b)"
| "js_plus numberToString (VNum a) (VStr t) = VStr (numberToString a @ t)"
| "js_plus numberToString (VStr s) (VNum b) = VStr (s @ numberToString b)"
| "js_plus numberToString (VStr s) (VStr t) = VStr (s @ t)"

text \<open>The operand of \<open>/\<close> as a Number.\<close>

fun toNumber :: "(jsstring \<Rightarrow> jsnum) \<Rightarrow> jsv \<Rightarrow> jsnum" where
  "toNumber stringToNumber (VNum a) = a"
| "toNumber stringToNumber (VStr s) = stringToNumber s"

text \<open>
  Lines 383-385, the number rendered in front of the percent sign:
  \<^verbatim>\<open>Math.round(((providerCounts["AWS"] || 0) + (providerCounts["Azure"] || 0)
     + (providerCounts["GCP"] || 0)) / allCompanies.length * 100)\<close>
\<close>

definition bigThreePercent ::
  "(jsnum \<Rightarrow> jsstring) \<Rightarrow> (jsstring \<Rightarrow> jsnum) \<Rightarrow> (jsstring \<Rightarrow> jsstring) \<Rightarrow>
   company list \<Rightarrow> state \<Rightarrow> jsnum" where
  "bigThreePercent numberToString stringToNumber protoText defaultCompanies st =
     (let pc = providerCounts protoText defaultCompanies st
      in js_round
           (js_mul
              (js_div
                 (toNumber stringToNumber
                    (js_plus numberToString
                       (js_plus numberToString (countOrZero protoText pc (str ''AWS''))
                          (countOrZero protoText pc (str ''Azure'')))
                       (countOrZero protoText pc (str ''GCP''))))
                 (Num (of_nat (length (allCompanies defaultCompanies st)))))
              (Num 100)))"

section \<open>Vocabulary of the specification\<close>





text \<open>What \<open>toLowerCase\<close> does to a string of ASCII code units: A-Z become a-z.\<close>

definition asciiLower :: "nat \<Rightarrow> nat" where
  "asciiLower u = (if 65 \<le> u \<and> u \<le> 90 then u + 32 else u)"


text \<open>The number of companies of a list that are counted under the key \<open>k\<close>.\<close>

definition countKey :: "jsstring \<Rightarrow> company list \<Rightarrow> nat" where
  "countKey k cs = length (filter (\<lambda>c. toPropertyKey (provider c) = k) cs)"

text \<open>The sum of the values of a counts object that are numbers, and whether all are.\<close>

fun numberOf :: "jsprop \<Rightarrow> nat" where
  "numberOf (PNum n) = n"
| "numberOf (PStr s) = 0"

definition sumOfCounts :: "counts \<Rightarrow> nat" where
  "sumOfCounts cs = sum_list (map (\<lambda>(k, v). numberOf v) cs)"

fun isNumber :: "jsprop \<Rightarrow> bool" where
  "isNumber (PNum n) = True"
| "isNumber (PStr s) = False"

text \<open>A catalog none of whose provider keys is a name of \<open>Object.prototype\<close>.\<close>

definition plainKeys :: "company list \<Rightarrow> bool" where
  "plainKeys cs = list_all (\<lambda>c. toPropertyKey (provider c) \<notin> set objectPrototypeNames) cs"

text \<open>The companies of the three big providers.\<close>

definition isBigThree :: "company \<Rightarrow> bool" where
  "isBigThree c = (provider c \<in> {Str (str ''AWS''), Str (str ''Azure''), Str (str ''GCP'')})"

section \<open>Example data\<close>

text \<open>The state of the component when it is mounted: the arguments of its \<open>useState\<close> calls.\<close>

definition initialState :: state where
  "initialState =
     \<lparr> searchQuery = [], selectedProvider = None, customCompanies = [],
       newCompanyUrl = [], isDetecting = False, detectionError = None,
       menuOpen = False, hoveredProvider = None \<rparr>"

definition mkCompany :: "string \<Rightarrow> string \<Rightarrow> string \<Rightarrow> string \<Rightarrow> company" where
  "mkCompany n s d p = \<lparr> name = str n, symbol = str s, domain = str d, provider = Str (str p) \<rparr>"

definition netflix :: company where
  "netflix = mkCompany ''Netflix'' ''NFLX'' ''netflix.com'' ''AWS''"

definition reddit :: company where
  "reddit = mkCompany ''Reddit'' ''RDDT'' ''reddit.com'' ''AWS''"

definition slack :: company where
  "slack = mkCompany ''Slack'' ''WORK'' ''slack.com'' ''AWS''"

definition linkedin :: company where
  "linkedin = mkCompany ''LinkedIn'' ''MSFT'' ''linkedin.com'' ''Azure''"

definition zoom :: company where
  "zoom = mkCompany ''Zoom'' ''ZM'' ''zoom.us'' ''Oracle''"

text \<open>Session-added entries for which the detector answered the empty string, and \<open>__proto__\<close>.\<close>

definition unnamedProvider :: company where
  "unnamedProvider = mkCompany ''Example'' ''CUSTOM'' ''example.com'' []"

definition protoProvider :: company where
  "protoProvider = mkCompany ''Proto'' ''CUSTOM'' ''proto.dev'' ''__proto__''"

text \<open>Five companies, three of them on AWS and one on Azure.\<close>

definition exampleCatalog :: "company list" where
  "exampleCatalog = [netflix, reddit, slack, linkedin, zoom]"

text \<open>Forty companies with distinct domains, 23 of them on AWS and none on Azure or GCP.\<close>

definition numbered :: "jsval \<Rightarrow> nat \<Rightarrow> company" where
  "numbered p i =
     \<lparr> name = str ''Co'' @ replicate i 120, symbol = str ''CO'',
       domain = str ''co'' @ replicate i 120 @ str ''.com'', provider = p \<rparr>"

definition fortyCompanies :: "company list" where
  "fortyCompanies =
     map (numbered (Str (str ''AWS''))) [0..<23] @ map (numbered (Str (str ''Oracle''))) [23..<40]"

text \<open>
  Collaborators for the examples. The strings whose case the examples convert are ASCII:
  there \<open>toLowerCase\<close> changes A-Z and \<open>toUpperCase\<close> changes a-z, and nothing else.
\<close>

definition exampleLowerCase :: "jsstring \<Rightarrow> jsstring" where
  "exampleLowerCase s = map asciiLower s"

definition exampleUpperCase :: "jsstring \<Rightarrow> jsstring" where
  "exampleUpperCase s = map (\<lambda>u. if 97 \<le> u \<and> u \<le> 122 then u - 32 else u) s"

text \<open>
  The examples read no member of \<open>Object.prototype\<close> but \<open>__proto__\<close>, the prototype
  itself, and convert no number to a string and no string to a number.
\<close>

definition objectText :: "jsstring \<Rightarrow> jsstring" where
  "objectText k = str ''[object Object]''"

definition numberText :: "jsnum \<Rightarrow> jsstring" where
  "numberText x = []"

definition textNumber :: "jsstring \<Rightarrow> jsnum" where
  "textNumber s = NaN"

definition stripeHostname :: "jsstring \<Rightarrow> jsstring option" where
  "stripeHostname u =
     (if u = str ''https://www.stripe.com'' then Some (str ''www.stripe.com'') else None)"

definition noHostname :: "jsstring \<Rightarrow> jsstring option" where
  "noHostname u = None"

definition detectOther :: "jsstring \<Rightarrow> response" where
  "detectOther u = Body (Str (str ''Other''))"

definition detectUnlisted :: "jsstring \<Rightarrow> response" where
  "detectUnlisted u = Body (Str (str ''DigitalOcean''))"

definition detectAbsent :: "jsstring \<Rightarrow> response" where
  "detectAbsent u = Body Undefined"

definition offline :: "jsstring \<Rightarrow> response" where
  "offline u = Rejected"

section \<open>Strings: what the string methods compute\<close>








lemma js_split_first: "\<exists>ps. js_split s sep = takeWhile (\<lambda>c. c \<noteq> sep) s # ps"
  by (induction s) (auto split: list.splits)

section \<open>Counting: what the loop of \<open>providerCounts\<close> computes\<close>

lemma proto_in_names: "str ''__proto__'' \<in> set objectPrototypeNames"
  by (simp add: objectPrototypeNames_def)

lemma map_of_insertNew:
  "k \<notin> fst ` set cs \<Longrightarrow> map_of (insertNew cs k v) k' = (if k' = k then Some v else map_of cs k')"
  by (induction cs) (auto split: if_splits)

lemma map_of_overwrite_other:
  "k' \<noteq> k \<Longrightarrow>
   map_of (map (\<lambda>(k', v'). if k' = k then (k, v) else (k', v')) cs) k' = map_of cs k'"
  by (induction cs) auto

lemma map_of_overwrite_same:
  "k \<in> fst ` set cs \<Longrightarrow>
   map_of (map (\<lambda>(k', v'). if k' = k then (k, v) else (k', v')) cs) k = Some v"
  by (induction cs) auto

lemma map_of_set_count:
  "k \<noteq> str ''__proto__'' \<Longrightarrow>
   map_of (set_count cs k v) k' = (if k' = k then Some v else map_of cs k')"
  by (simp add: set_count_def map_of_insertNew map_of_overwrite_other map_of_overwrite_same)

lemma set_insertNew: "set (insertNew cs k v) = insert (k, v) (set cs)"
  by (induction cs) (auto split: if_splits)

lemma distinct_insertNew:
  "k \<notin> fst ` set cs \<Longrightarrow> distinct (map fst cs) \<Longrightarrow> distinct (map fst (insertNew cs k v))"
proof (induction cs)
  case Nil
  show ?case by simp
next
  case (Cons a cs)
  obtain k' v' where a: "a = (k', v')" by (cases a)
  have "k' \<notin> fst ` set (insertNew cs k v)"
    using Cons.prems a by (auto simp: set_insertNew)
  then show ?case using Cons a by (auto simp: set_insertNew)
qed

lemma keys_overwrite:
  "map fst (map (\<lambda>(k', v'). if k' = k then (k, v) else (k', v')) cs) = map fst cs"
  by (induction cs) auto

lemma distinct_set_count: "distinct (map fst cs) \<Longrightarrow> distinct (map fst (set_count cs k v))"
  by (simp add: set_count_def distinct_insertNew keys_overwrite del: map_map)

lemma sum_insertNew: "sumOfCounts (insertNew cs k v) = sumOfCounts cs + numberOf v"
  by (induction cs) (auto simp: sumOfCounts_def)

lemma sum_overwrite:
  "distinct (map fst cs) \<Longrightarrow> map_of cs k = Some w \<Longrightarrow>
   sumOfCounts (map (\<lambda>(k', v'). if k' = k then (k, v) else (k', v')) cs) + numberOf w
     = sumOfCounts cs + numberOf v"
proof (induction cs)
  case Nil
  then show ?case by simp
next
  case (Cons a cs)
  obtain k' v' where a: "a = (k', v')" by (cases a)
  show ?case
  proof (cases "k' = k")
    case True
    then have w: "w = v'" using Cons.prems a by simp
    have "k \<notin> fst ` set cs" using Cons.prems True a by auto
    then have "map (\<lambda>(k', v'). if k' = k then (k, v) else (k', v')) cs = cs"
      by (induction cs) auto
    then show ?thesis using True a w by (simp add: sumOfCounts_def)
  next
    case False
    then have "map_of cs k = Some w" using Cons.prems a by simp
    then have "sumOfCounts (map (\<lambda>(k', v'). if k' = k then (k, v) else (k', v')) cs) + numberOf w
     = sumOfCounts cs + numberOf v"
      using Cons by simp
    then show ?thesis using False a by (simp add: sumOfCounts_def)
  qed
qed

text \<open>
  A key that is no name of \<open>Object.prototype\<close> counts its companies, whatever the other
  keys of the catalog are.
\<close>

lemma countStep_apply:
  "countStep protoText cs c =
     set_count cs (toPropertyKey (provider c))
       (plusOne protoText (toPropertyKey (provider c)) (get_count cs (toPropertyKey (provider c))))"
  by (simp only: countStep_def)

lemma countKey_snoc:
  "countKey k (xs @ [x]) = countKey k xs + (if toPropertyKey (provider x) = k then 1 else 0)"
  by (simp add: countKey_def)

lemma lookup_plain:
  assumes "k \<notin> set objectPrototypeNames"
  shows "map_of (foldl (countStep protoText) [] xs) k
           = (if countKey k xs = 0 then None else Some (PNum (countKey k xs)))"
proof (induction xs rule: rev_induct)
  case Nil
  show ?case by (simp add: countKey_def)
next
  case (snoc x xs)
  let ?cs = "foldl (countStep protoText) [] xs"
  let ?k0 = "toPropertyKey (provider x)"
  show ?case
  proof (cases "?k0 = k")
    case True
    have np: "k \<noteq> str ''__proto__''" using assms proto_in_names by auto
    have "plusOne protoText k (get_count ?cs k) = PNum (countKey k xs + 1)"
      using snoc assms by (simp add: plusOne_def get_count_def)
    then have "map_of (countStep protoText ?cs x) k = Some (PNum (countKey k xs + 1))"
      using True np by (simp add: countStep_apply[of protoText ?cs x] map_of_set_count)
    then show ?thesis
      using True by (simp add: countKey_snoc)
  next
    case False
    have "map_of (countStep protoText ?cs x) k = map_of ?cs k"
    proof (cases "?k0 = str ''__proto__''")
      case True
      then show ?thesis by (simp add: countStep_apply[of protoText ?cs x] set_count_def)
    next
      case False
      then show ?thesis
        using \<open>?k0 \<noteq> k\<close> by (simp add: countStep_apply[of protoText ?cs x] map_of_set_count)
    qed
    then show ?thesis using False snoc by (simp add: countKey_snoc)
  qed
qed

lemma counts_plain:
  assumes "plainKeys xs"
  shows "distinct (map fst (foldl (countStep protoText) [] xs))
       \<and> sumOfCounts (foldl (countStep protoText) [] xs) = length xs"
  using assms
proof (induction xs rule: rev_induct)
  case Nil
  show ?case by (simp add: sumOfCounts_def)
next
  case (snoc x xs)
  let ?cs = "foldl (countStep protoText) [] xs"
  let ?k = "toPropertyKey (provider x)"
  have px: "plainKeys xs" and kx: "?k \<notin> set objectPrototypeNames"
    using snoc.prems by (simp_all add: plainKeys_def)
  have ih: "distinct (map fst ?cs)" "sumOfCounts ?cs = length xs"
    using snoc.IH[OF px] by auto
  have np: "?k \<noteq> str ''__proto__''" using kx proto_in_names by auto
  have lk: "map_of ?cs ?k = (if countKey ?k xs = 0 then None else Some (PNum (countKey ?k xs)))"
    using kx by (rule lookup_plain)
  have d: "distinct (map fst (countStep protoText ?cs x))"
    using ih(1) by (simp add: countStep_apply[of protoText ?cs x] distinct_set_count)
  have s: "sumOfCounts (countStep protoText ?cs x) = sumOfCounts ?cs + 1"
  proof (cases "countKey ?k xs = 0")
    case True
    then have none: "map_of ?cs ?k = None" using lk by simp
    then have "?k \<notin> fst ` set ?cs" by (simp add: map_of_eq_None_iff)
    then show ?thesis
      using none kx np
      by (simp add: countStep_apply[of protoText ?cs x] set_count_def get_count_def plusOne_def
            sum_insertNew)
  next
    case False
    then have some: "map_of ?cs ?k = Some (PNum (countKey ?k xs))" using lk by simp
    then have "?k \<in> fst ` set ?cs" by (metis map_of_eq_None_iff option.distinct(1))
    moreover have "sumOfCounts (map (\<lambda>(k', v'). if k' = ?k then (?k, PNum (Suc (countKey ?k xs))) else (k', v')) ?cs)
        + numberOf (PNum (countKey ?k xs)) = sumOfCounts ?cs + numberOf (PNum (Suc (countKey ?k xs)))"
      using ih(1) some by (rule sum_overwrite)
    ultimately show ?thesis
      using some np
      by (simp add: countStep_apply[of protoText ?cs x] set_count_def get_count_def plusOne_def)
  qed
  show ?case using d s ih(2) by simp
qed

lemma values_plain:
  assumes "plainKeys xs" and "(k, v) \<in> set (foldl (countStep protoText) [] xs)"
  shows "k \<notin> set objectPrototypeNames \<Longrightarrow> v = PNum (countKey k xs)"
proof -
  assume k: "k \<notin> set objectPrototypeNames"
  have "distinct (map fst (foldl (countStep protoText) [] xs))"
    using counts_plain[OF assms(1)] by simp
  then have "map_of (foldl (countStep protoText) [] xs) k = Some v"
    using assms(2) by simp
  then show ?thesis using lookup_plain[OF k, of protoText xs] by (simp split: if_splits)
qed

lemma countKey_bigThree:
  "countKey (str ''AWS'') cs + countKey (str ''Azure'') cs + countKey (str ''GCP'') cs
     = length (filter isBigThree cs)"
proof (induction cs)
  case Nil
  show ?case by (simp add: countKey_def)
next
  case (Cons c cs)
  have step: "countKey k (c # cs) = (if toPropertyKey (provider c) = k then 1 else 0) + countKey k cs"
    for k by (simp add: countKey_def)
  have len: "length (filter isBigThree (c # cs)) = (if isBigThree c then 1 else 0) + length (filter isBigThree cs)"
    by simp
  have one: "((if toPropertyKey (provider c) = str ''AWS'' then 1 else 0)
       + (if toPropertyKey (provider c) = str ''Azure'' then 1 else 0)
       + (if toPropertyKey (provider c) = str ''GCP'' then 1 else 0) :: nat)
       = (if isBigThree c then 1 else 0)"
    by (cases "provider c") (auto simp: isBigThree_def str_def)
  show ?case
    unfolding step len using one Cons.IH by linarith
qed

section \<open>Numbers: the rounding is to a nearest value of 53 bits\<close>

text \<open>
  \<open>floorLog2\<close> finds the binade of a positive rational, \<open>roundHalfEven\<close> a nearest
  integer; so a finite result of \<open>roundDouble\<close> is a multiple of the unit in the last
  place of its argument's binade, at most half a unit away from the argument.
\<close>

lemma bitLength_bounds:
  "0 < i \<Longrightarrow> 2 ^ (bitLength i - 1) \<le> i \<and> i < 2 ^ bitLength i"
proof (induction i rule: bitLength.induct)
  case (1 n)
  show ?case
  proof (cases "n = 1")
    case True
    have "bitLength 1 = 1" by (simp add: bitLength.simps)
    with True show ?thesis by simp
  next
    case False
    with 1 have pos: "0 < n div 2" by simp
    have bl: "bitLength n = Suc (bitLength (n div 2))"
      using 1 by (subst bitLength.simps) simp
    have ih: "2 ^ (bitLength (n div 2) - 1) \<le> n div 2 \<and> n div 2 < 2 ^ bitLength (n div 2)"
      using "1.IH" "1.prems" pos by simp
    have nz: "bitLength (n div 2) \<noteq> 0"
      using pos by (subst bitLength.simps) simp
    then have e: "2 ^ bitLength (n div 2) = (2::int) * 2 ^ (bitLength (n div 2) - 1)"
      by (cases "bitLength (n div 2)") simp_all
    show ?thesis
      using ih e by (simp add: bl) linarith
  qed
qed

lemma roundHalfEven_nearest: "\<bar>of_int (roundHalfEven x) - x\<bar> \<le> 1 / 2"
proof -
  have "of_int \<lfloor>x\<rfloor> \<le> x" "x < of_int \<lfloor>x\<rfloor> + 1" by linarith+
  then show ?thesis
    by (auto simp: roundHalfEven_def Let_def)
qed

lemma floorLog2_bounds:
  assumes "0 < q"
  shows "pow2 (floorLog2 q) \<le> q \<and> q < 2 * pow2 (floorLog2 q)"
proof (cases "1 \<le> q")
  case True
  define i where "i = \<lfloor>q\<rfloor>"
  have ipos: "0 < i" using True by (simp add: i_def)
  have iq: "of_int i \<le> q" "q < of_int i + 1" unfolding i_def by linarith+
  from bitLength_bounds[OF ipos]
  have b: "2 ^ (bitLength i - 1) \<le> i" "i < 2 ^ bitLength i" by auto
  have nz: "bitLength i \<noteq> 0" using ipos by (subst bitLength.simps) simp
  then have fl: "floorLog2 q = int (bitLength i - 1)"
    using True by (simp add: floorLog2_def i_def)
  have p: "pow2 (floorLog2 q) = 2 ^ (bitLength i - 1)" by (simp add: fl pow2_def)
  have two: "(2::rat) * 2 ^ (bitLength i - 1) = 2 ^ bitLength i"
    using nz by (cases "bitLength i") simp_all
  have "(of_int (2 ^ (bitLength i - 1)) :: rat) \<le> of_int i"
    using b(1) by (simp only: of_int_le_iff)
  then have "(2::rat) ^ (bitLength i - 1) \<le> of_int i" by simp
  then have lo: "(2::rat) ^ (bitLength i - 1) \<le> q" using iq(1) by linarith
  have "i + 1 \<le> 2 ^ bitLength i" using b(2) by simp
  then have "(of_int (i + 1) :: rat) \<le> of_int (2 ^ bitLength i)" by (simp only: of_int_le_iff)
  then have "of_int i + 1 \<le> (2::rat) ^ bitLength i" by simp
  then have hi: "q < 2 ^ bitLength i" using iq(2) by linarith
  show ?thesis unfolding p using lo hi two by linarith
next
  case False
  define r where "r = 1 / q"
  define m where "m = \<lceil>r\<rceil> - 1"
  have r1: "1 < r" using False assms by (simp add: r_def)
  have mr: "of_int m < r" "r \<le> of_int m + 1" unfolding m_def by linarith+
  have mpos: "0 < m" using r1 unfolding m_def by linarith
  from bitLength_bounds[OF mpos]
  have b: "2 ^ (bitLength m - 1) \<le> m" "m < 2 ^ bitLength m" by auto
  have nz: "bitLength m \<noteq> 0" using mpos by (subst bitLength.simps) simp
  have fl: "floorLog2 q = - int (bitLength m)"
    using False by (simp add: floorLog2_def m_def r_def)
  have p: "pow2 (floorLog2 q) = 1 / 2 ^ bitLength m"
    using nz by (simp add: fl pow2_def)
  have two: "(2::rat) * 2 ^ (bitLength m - 1) = 2 ^ bitLength m"
    using nz by (cases "bitLength m") simp_all
  have "(of_int (2 ^ (bitLength m - 1)) :: rat) \<le> of_int m" using b(1) by (simp only: of_int_le_iff)
  then have "(2::rat) ^ (bitLength m - 1) \<le> of_int m" by simp
  then have lo: "(2::rat) ^ (bitLength m - 1) < r" using mr(1) by linarith
  have "m + 1 \<le> 2 ^ bitLength m" using b(2) by simp
  then have "(of_int (m + 1) :: rat) \<le> of_int (2 ^ bitLength m)" by (simp only: of_int_le_iff)
  then have "of_int m + 1 \<le> (2::rat) ^ bitLength m" by simp
  then have hi: "r \<le> 2 ^ bitLength m" using mr(2) by linarith
  have q: "q = 1 / r" by (simp add: r_def)
  have rpos: "0 < r" using r1 by simp
  have A: "1 / 2 ^ bitLength m \<le> q"
    unfolding q using hi rpos by (simp add: frac_le)
  have "1 / r < 1 / 2 ^ (bitLength m - 1)"
    using lo by (simp add: frac_less2)
  moreover have "(1::rat) / 2 ^ (bitLength m - 1) = 2 * (1 / 2 ^ bitLength m)"
    by (simp add: two[symmetric])
  ultimately have B: "q < 2 * (1 / 2 ^ bitLength m)"
    unfolding q by simp
  show ?thesis unfolding p using A B by linarith
qed

lemma pow2_pos: "0 < pow2 e"
  by (simp add: pow2_def)

lemma roundDouble_nearest:
  assumes "roundDouble q = Num v" and "q \<noteq> 0"
  shows "\<bar>v - q\<bar> \<le> pow2 (max (floorLog2 \<bar>q\<bar>) (- 1022) - 52) / 2"
proof -
  define ulp where "ulp = pow2 (max (floorLog2 \<bar>q\<bar>) (- 1022) - 52)"
  define m where "m = roundHalfEven (\<bar>q\<bar> / ulp)"
  have up: "0 < ulp" unfolding ulp_def by (rule pow2_pos)
  have v: "v = sgn q * (of_int m * ulp)"
    using assms by (simp add: roundDouble_def Let_def ulp_def[symmetric] m_def[symmetric]
        split: if_splits)
  have "\<bar>of_int m - \<bar>q\<bar> / ulp\<bar> \<le> 1 / 2"
    unfolding m_def by (rule roundHalfEven_nearest)
  then have "\<bar>of_int m - \<bar>q\<bar> / ulp\<bar> * ulp \<le> 1 / 2 * ulp"
    using up by (simp only: mult_le_cancel_right_pos)
  moreover have "\<bar>of_int m - \<bar>q\<bar> / ulp\<bar> * ulp = \<bar>of_int m * ulp - \<bar>q\<bar>\<bar>"
  proof -
    have "\<bar>of_int m - \<bar>q\<bar> / ulp\<bar> * ulp = \<bar>(of_int m - \<bar>q\<bar> / ulp) * ulp\<bar>"
      using up by (simp add: abs_mult)
    also have "(of_int m - \<bar>q\<bar> / ulp) * ulp = of_int m * ulp - \<bar>q\<bar>"
      using up by (simp add: field_simps)
    finally show ?thesis .
  qed
  ultimately have near: "\<bar>of_int m * ulp - \<bar>q\<bar>\<bar> \<le> ulp / 2" by simp
  have "\<bar>v - q\<bar> = \<bar>of_int m * ulp - \<bar>q\<bar>\<bar>"
  proof (cases "0 < q")
    case True
    then show ?thesis by (simp add: v)
  next
    case False
    with assms(2) have "q < 0" by simp
    then show ?thesis by (simp add: v)
  qed
  then show ?thesis using near by (simp add: ulp_def)
qed

section \<open>Numbers: integers below \<open>2^53\<close> are exact\<close>

lemma bitLength_le: "i < 2 ^ k \<Longrightarrow> bitLength i \<le> k"
proof (induction k arbitrary: i)
  case 0
  then have "i \<le> 0" by simp
  then show ?case by (simp add: bitLength.simps)
next
  case (Suc k)
  show ?case
  proof (cases "i \<le> 0")
    case True
    then show ?thesis by (simp add: bitLength.simps)
  next
    case False
    from Suc.prems have "i div 2 < 2 ^ k" by simp
    then have "bitLength (i div 2) \<le> k" by (rule Suc.IH)
    with False show ?thesis by (subst bitLength.simps) simp
  qed
qed

lemma roundHalfEven_of_int: "roundHalfEven (of_int m) = m"
  by (simp add: roundHalfEven_def)

lemma roundDouble_of_nat:
  assumes "n < 2 ^ 53"
  shows "roundDouble (of_nat n) = Num (of_nat n)"
proof (cases "n = 0")
  case True
  then show ?thesis by (simp add: roundDouble_def)
next
  case False
  define q :: rat where "q = of_nat n"
  define e where "e = floorLog2 q"
  define k where "k = nat (52 - e)"
  have q1: "1 \<le> q" using False by (simp add: q_def)
  have fl: "\<lfloor>q\<rfloor> = int n" by (simp add: q_def)
  have "int n < 2 ^ 53" using assms by (metis of_nat_less_iff of_nat_numeral of_nat_power)
  then have "bitLength (int n) \<le> 53" by (rule bitLength_le)
  then have e52: "e \<le> 52" and e0: "- 1 \<le> e"
    using q1 by (simp_all add: e_def floorLog2_def fl)
  have mx: "max e (- 1022) = e" using e0 by simp
  have ulp: "pow2 (e - 52) = 1 / 2 ^ k"
  proof (cases "e = 52")
    case True
    then show ?thesis by (simp add: pow2_def k_def)
  next
    case False
    with e52 have "e - 52 < 0" by simp
    then show ?thesis by (simp add: pow2_def k_def)
  qed
  have sc: "q / (1 / 2 ^ k) = of_int (int n * 2 ^ k)" by (simp add: q_def)
  have aq: "\<bar>q\<bar> = q" using q1 by simp
  have "of_int (roundHalfEven (q / (1 / 2 ^ k))) * (1 / 2 ^ k) = (of_int (int n * 2 ^ k) :: rat) * (1 / 2 ^ k)"
    by (simp only: sc roundHalfEven_of_int)
  also have "\<dots> = q" by (simp add: q_def)
  finally have v: "of_int (roundHalfEven (q / pow2 (e - 52))) * pow2 (e - 52) = q"
    by (simp only: ulp)
  have "q < 2 ^ 53" using assms unfolding q_def
    by (metis of_nat_less_iff of_nat_numeral of_nat_power)
  also have "(2::rat) ^ 53 \<le> 2 ^ 1024" by (rule power_increasing) simp_all
  finally have small: "\<not> 2 ^ 1024 \<le> q" by simp
  have "roundDouble q = Num q"
    using q1 small by (simp add: roundDouble_def Let_def aq e_def[symmetric] mx v)
  then show ?thesis by (simp add: q_def)
qed

lemma js_add_nat:
  "a + b < 2 ^ 53 \<Longrightarrow> js_add (Num (of_nat a)) (Num (of_nat b)) = Num (of_nat (a + b))"
  using roundDouble_of_nat[of "a + b"] by simp

text \<open>
  The quotient is rounded before it is multiplied: 23 of 40 is 57.49999999999999 percent
  and rounds to 57, where the exact value 57.5 rounds to 58.
\<close>

lemma rounding_order_example:
  "js_round (js_mul (js_div (Num 23) (Num 40)) (Num 100)) = Num 57
   \<and> \<lfloor>(100 * 23 / 40 :: rat) + 1 / 2\<rfloor> = 58"
  by code_simp

lemma set_set_count: "set (set_count cs k v) \<subseteq> insert (k, v) (set cs)"
  by (auto simp: set_count_def set_insertNew split: if_splits)

lemma keys_from_catalog:
  "(k, v) \<in> set (foldl (countStep protoText) [] xs) \<Longrightarrow>
   k \<in> (\<lambda>c. toPropertyKey (provider c)) ` set xs"
proof (induction xs arbitrary: k v rule: rev_induct)
  case Nil
  then show ?case by simp
next
  case (snoc x xs)
  let ?cs = "foldl (countStep protoText) [] xs"
  from snoc.prems have "(k, v) \<in> set (countStep protoText ?cs x)" by simp
  then have "k = toPropertyKey (provider x) \<or> (k, v) \<in> set ?cs"
    using set_set_count by (fastforce simp: countStep_apply[of protoText ?cs x])
  then show ?case using snoc.IH by auto
qed

lemma big_three_plain:
  "str ''AWS'' \<notin> set objectPrototypeNames \<and> str ''Azure'' \<notin> set objectPrototypeNames
   \<and> str ''GCP'' \<notin> set objectPrototypeNames"
  by (simp add: objectPrototypeNames_def str_def)

lemma countOrZero_plain:
  "k \<notin> set objectPrototypeNames \<Longrightarrow>
   countOrZero protoText (providerCounts protoText D st) k
     = VNum (Num (of_nat (countKey k (allCompanies D st))))"
  using lookup_plain[of k protoText "allCompanies D st"]
  by (simp add: countOrZero_def get_count_def providerCounts_def)

section \<open>The handler: its runs\<close>

lemma list_ex_domain: "list_ex (\<lambda>c. domain c = d) cs \<longleftrightarrow> d \<in> domain ` set cs"
  by (auto simp: list_ex_iff)

lemma newCompany_eq:
  "newCompany toUpperCase d p =
     Some \<lparr> name = toUpperCase (take 1 (takeWhile (\<lambda>u. u \<noteq> 46) d))
                     @ drop 1 (takeWhile (\<lambda>u. u \<noteq> 46) d),
             symbol = str ''CUSTOM'', domain = d, provider = p \<rparr>"
proof -
  obtain ps where "js_split d 46 = takeWhile (\<lambda>u. u \<noteq> 46) d # ps"
    using js_split_first by blast
  then show ?thesis
    by (simp add: newCompany_def charAt_def slice_def)
qed


lemma actions_success:
  assumes "trim (newCompanyUrl st) \<noteq> []"
    and "extractDomain urlHostname (newCompanyUrl st) = Some d"
    and "d \<notin> domain ` set (allCompanies D st)"
    and "detect (trim (newCompanyUrl st)) = Body p"
  shows "handleAddCompanyActions toUpperCase D urlHostname detect st =
     [SetIsDetecting True, SetDetectionError None, Fetch (trim (newCompanyUrl st)),
      AppendCustomCompany (the (newCompany toUpperCase d p)), SetNewCompanyUrl [],
      SetIsDetecting False]"
  using assms by (simp add: handleAddCompanyActions_def list_ex_domain newCompany_eq)

lemma extractDomain_plain:
  "\<not> startsWith (trim url) (str ''http://'') \<Longrightarrow> \<not> startsWith (trim url) (str ''https://'') \<Longrightarrow>
   extractDomain urlHostname url = Some (replace (trim url) (str ''www.'') [])"
  by (simp add: extractDomain_def)

section \<open>The claims\<close>



text \<open>
  The empty string as a filter, the key of the pill of a company whose provider is the
  empty string, is no filter: the AWS company stays in the list.
\<close>

lemma filteredCompanies_empty_filter_example:
  "filteredCompanies exampleLowerCase [netflix]
      (initialState\<lparr>customCompanies := [unnamedProvider], selectedProvider := Some []\<rparr>)
     = [netflix, unnamedProvider]
   \<and> provider netflix \<noteq> Str []"
  by code_simp

text \<open>
  C2. When the hovered provider is set, the displayed companies are all catalog companies
  of that provider, whatever the search query and the sticky filter are; when it is unset,
  they are \<open>filteredCompanies\<close>. A hovered provider is set when it holds a provider
  name, a non-empty string: the source tests \<open>if (hoveredProvider)\<close>, which \<open>null\<close>
  and the empty string fail alike.
\<close>

theorem displayedCompanies_hover:
  "(\<forall>h. hoveredProvider st = Some h \<and> h \<noteq> [] \<longrightarrow>
        displayedCompanies toLowerCase defaultCompanies (st\<lparr>searchQuery := q, selectedProvider := s\<rparr>) =
          filter (\<lambda>c. provider c = Str h) (allCompanies defaultCompanies st))
   \<and> (hoveredProvider st = None \<or> hoveredProvider st = Some [] \<longrightarrow>
        displayedCompanies toLowerCase defaultCompanies st
          = filteredCompanies toLowerCase defaultCompanies st)"
  by (auto simp: displayedCompanies_def allCompanies_def)

theorem displayedCompanies_hover_witness:
  "displayedCompanies exampleLowerCase exampleCatalog
      (initialState\<lparr>hoveredProvider := Some (str ''Azure''), searchQuery := str ''net'',
                     selectedProvider := Some (str ''AWS'')\<rparr>) = [linkedin]
   \<and> displayedCompanies exampleLowerCase exampleCatalog initialState
       = filteredCompanies exampleLowerCase exampleCatalog initialState"
proof -
  have h: "hoveredProvider (initialState\<lparr>hoveredProvider := Some (str ''Azure'')\<rparr>) = Some (str ''Azure'')
           \<and> str ''Azure'' \<noteq> []"
    by (simp add: str_def)
  have f: "filter (\<lambda>c. provider c = Str (str ''Azure''))
             (allCompanies exampleCatalog (initialState\<lparr>hoveredProvider := Some (str ''Azure'')\<rparr>))
           = [linkedin]"
    by code_simp
  have n: "hoveredProvider initialState = None" by (simp add: initialState_def)
  show ?thesis
    using displayedCompanies_hover[where st = "initialState\<lparr>hoveredProvider := Some (str ''Azure'')\<rparr>"
        and defaultCompanies = exampleCatalog and q = "str ''net''" and s = "Some (str ''AWS'')"
        and toLowerCase = exampleLowerCase]
      displayedCompanies_hover[where st = initialState and defaultCompanies = exampleCatalog
        and toLowerCase = exampleLowerCase] h f n
    by simp
qed

text \<open>
  The empty string as the hovered provider is no hover: the list is the filtered one.
\<close>

lemma displayedCompanies_empty_hover_example:
  "displayedCompanies exampleLowerCase [netflix]
      (initialState\<lparr>customCompanies := [unnamedProvider], hoveredProvider := Some []\<rparr>)
     = [netflix, unnamedProvider]
   \<and> provider netflix \<noteq> Str []"
  by code_simp





text \<open>
  C9. On a successful detection the provider stored in the appended company is the value
  of the answer's \<open>provider\<close> field as it is: any string, listed among the providers or
  not, and \<open>undefined\<close> when the field is absent.
\<close>

theorem provider_verbatim:
  assumes "trim (newCompanyUrl st) \<noteq> []"
    and "extractDomain urlHostname (newCompanyUrl st) = Some d"
    and "d \<notin> domain ` set (allCompanies D st)"
    and "detect (trim (newCompanyUrl st)) = Body p"
  shows "map provider (customCompanies (handleAddCompany toUpperCase D urlHostname detect st)) =
           map provider (customCompanies st) @ [p]"
  by (simp add: handleAddCompany_def
        actions_success[where detect = detect and toUpperCase = toUpperCase, OF assms]
        newCompany_eq)

theorem provider_verbatim_witness:
  "map provider
      (customCompanies
         (handleAddCompany exampleUpperCase exampleCatalog noHostname detectUnlisted
            (initialState\<lparr>newCompanyUrl := str ''stripe.com''\<rparr>)))
     = [Str (str ''DigitalOcean'')]
   \<and> map provider
      (customCompanies
         (handleAddCompany exampleUpperCase exampleCatalog noHostname detectAbsent
            (initialState\<lparr>newCompanyUrl := str ''stripe.com''\<rparr>)))
     = [Undefined]"
proof -
  let ?st = "initialState\<lparr>newCompanyUrl := str ''stripe.com''\<rparr>"
  have h1: "trim (newCompanyUrl ?st) \<noteq> []" by code_simp
  have h2: "extractDomain noHostname (newCompanyUrl ?st) = Some (str ''stripe.com'')" by code_simp
  have h3: "str ''stripe.com'' \<notin> domain ` set (allCompanies exampleCatalog ?st)"
    by code_simp
  have h4: "detectUnlisted (trim (newCompanyUrl ?st)) = Body (Str (str ''DigitalOcean''))"
    by (simp add: detectUnlisted_def)
  have h5: "detectAbsent (trim (newCompanyUrl ?st)) = Body Undefined"
    by (simp add: detectAbsent_def)
  have c: "customCompanies ?st = []" by (simp add: initialState_def)
  show ?thesis
    using provider_verbatim[where detect = detectUnlisted and toUpperCase = exampleUpperCase,
        OF h1 h2 h3 h4]
      provider_verbatim[where detect = detectAbsent and toUpperCase = exampleUpperCase,
        OF h1 h2 h3 h5] c
    by simp
qed

text \<open>
  C8 (amended). A run of \<open>handleAddCompany\<close> whose trimmed input is not empty sets the
  loading flag and clears \<open>detectionError\<close> first, before the duplicate check sets its
  message and before any request is sent; the error it leaves is none or one of its own
  two messages. A run whose trimmed input is empty returns at once: it has no effect at
  all, so it sends no request, sets no message, and leaves \<open>detectionError\<close> as it was.
\<close>

theorem detectionError_reset:
  "(trim (newCompanyUrl st) \<noteq> [] \<longrightarrow>
      (\<exists>rest. handleAddCompanyActions toUpperCase D urlHostname detect st =
                 SetIsDetecting True # SetDetectionError None # rest)
      \<and> detectionError (handleAddCompany toUpperCase D urlHostname detect st) \<in>
          {None, Some (str ''Company already exists''),
           Some (str ''Failed to detect cloud provider. Please try again.'')})
   \<and> (trim (newCompanyUrl st) = [] \<longrightarrow>
      handleAddCompanyActions toUpperCase D urlHostname detect st = []
      \<and> handleAddCompany toUpperCase D urlHostname detect st = st)"
  by (auto simp: handleAddCompany_def handleAddCompanyActions_def catchActions_def newCompany_eq
           split: option.splits response.splits)

text \<open>
  The witness runs the handler on a draft behind a byte order mark whose request fails, on
  a duplicate, and on a draft of a no-break space and a line separator.
\<close>

theorem detectionError_reset_witness:
  "detectionError
      (handleAddCompany exampleUpperCase exampleCatalog noHostname offline
         (initialState\<lparr>newCompanyUrl := 65279 # str ''stripe.com'',
                        detectionError := Some (str ''Company already exists'')\<rparr>))
     = Some (str ''Failed to detect cloud provider. Please try again.'')
   \<and> handleAddCompanyActions exampleUpperCase exampleCatalog noHostname offline
        (initialState\<lparr>newCompanyUrl := str ''netflix.com'',
                       detectionError := Some (str ''Failed to detect cloud provider. Please try again.'')\<rparr>)
     = [SetIsDetecting True, SetDetectionError None,
        SetDetectionError (Some (str ''Company already exists'')), SetIsDetecting False,
        SetIsDetecting False]
   \<and> handleAddCompany exampleUpperCase exampleCatalog noHostname offline
        (initialState\<lparr>newCompanyUrl := [160, 8232]\<rparr>)
     = initialState\<lparr>newCompanyUrl := [160, 8232]\<rparr>"
proof -
  let ?s1 = "initialState\<lparr>newCompanyUrl := 65279 # str ''stripe.com'',
                        detectionError := Some (str ''Company already exists'')\<rparr>"
  let ?s2 = "initialState\<lparr>newCompanyUrl := str ''netflix.com'',
                       detectionError := Some (str ''Failed to detect cloud provider. Please try again.'')\<rparr>"
  let ?s3 = "initialState\<lparr>newCompanyUrl := [160, 8232]\<rparr>"
  have h1: "trim (newCompanyUrl ?s1) \<noteq> []" by code_simp
  have e1: "detectionError (handleAddCompany exampleUpperCase exampleCatalog noHostname offline ?s1)
      \<noteq> None
    \<and> detectionError (handleAddCompany exampleUpperCase exampleCatalog noHostname offline ?s1)
      \<noteq> Some (str ''Company already exists'')"
    by code_simp
  have h2: "trim (newCompanyUrl ?s2) \<noteq> []" by code_simp
  have e2: "handleAddCompanyActions exampleUpperCase exampleCatalog noHostname offline ?s2
      = [SetIsDetecting True, SetDetectionError None,
        SetDetectionError (Some (str ''Company already exists'')), SetIsDetecting False,
        SetIsDetecting False]"
    by code_simp
  have h3: "trim (newCompanyUrl ?s3) = []" by code_simp
  show ?thesis
    using detectionError_reset[where detect = offline and urlHostname = noHostname
        and D = exampleCatalog and toUpperCase = exampleUpperCase and st = ?s1]
      detectionError_reset[where detect = offline and urlHostname = noHostname
        and D = exampleCatalog and toUpperCase = exampleUpperCase and st = ?s3]
      h1 e1 e2 h3
    by auto
qed

text \<open>
  The claim as stated fails for an input that is empty after trimming: the message of the
  attempt before is still there after the run.
\<close>

theorem empty_input_keeps_error_counterexample:
  "trim (newCompanyUrl (initialState\<lparr>newCompanyUrl := str ''  '',
                          detectionError := Some (str ''Company already exists'')\<rparr>)) = []
   \<and> detectionError
        (handleAddCompany exampleUpperCase exampleCatalog noHostname offline
           (initialState\<lparr>newCompanyUrl := str ''  '',
                          detectionError := Some (str ''Company already exists'')\<rparr>))
       = Some (str ''Company already exists'')"
  by code_simp

text \<open>
  C10. Scheme detection is case-sensitive. An input whose trimmed text does not begin with
  the lowercase \<open>http://\<close> or \<open>https://\<close> is never URL-parsed: whatever the parser is,
  its domain is the trimmed text after \<open>replace("www.", "")\<close>. An input that does begin so
  takes its domain from the parser. For \<open>HTTPS://example.com\<close> the domain is the whole
  input, scheme included, and that is what a successful add stores.
\<close>

theorem scheme_case_sensitive:
  "(\<not> startsWith (trim url) (str ''http://'') \<and> \<not> startsWith (trim url) (str ''https://'') \<longrightarrow>
      extractDomain urlHostname url = Some (replace (trim url) (str ''www.'') []))
   \<and> (startsWith (trim url) (str ''http://'') \<or> startsWith (trim url) (str ''https://'') \<longrightarrow>
      extractDomain urlHostname url =
        map_option (\<lambda>h. replace h (str ''www.'') []) (urlHostname (trim url)))
   \<and> extractDomain urlHostname (str ''HTTPS://example.com'') = Some (str ''HTTPS://example.com'')
   \<and> (newCompanyUrl st = str ''HTTPS://example.com''
        \<and> str ''HTTPS://example.com'' \<notin> domain ` set (allCompanies D st)
        \<and> detect (str ''HTTPS://example.com'') = Body p \<longrightarrow>
      map domain (customCompanies (handleAddCompany toUpperCase D urlHostname detect st))
        = map domain (customCompanies st) @ [str ''HTTPS://example.com''])"
proof -
  have t: "trim (str ''HTTPS://example.com'') = str ''HTTPS://example.com''"
    by (simp add: trim_def isWhiteSpace_def str_def)
  have ne: "str ''HTTPS://example.com'' \<noteq> []" by (simp add: str_def)
  have e: "extractDomain urlHostname (str ''HTTPS://example.com'') = Some (str ''HTTPS://example.com'')"
    unfolding extractDomain_def t by (simp add: startsWith_def str_def)
  have a: "extractDomain urlHostname url = Some (replace (trim url) (str ''www.'') [])"
    if "\<not> startsWith (trim url) (str ''http://'')" "\<not> startsWith (trim url) (str ''https://'')"
    using that by (rule extractDomain_plain)
  have b: "extractDomain urlHostname url =
        map_option (\<lambda>h. replace h (str ''www.'') []) (urlHostname (trim url))"
    if "startsWith (trim url) (str ''http://'') \<or> startsWith (trim url) (str ''https://'')"
    using that by (auto simp: extractDomain_def split: option.splits)
  have c: "map domain (customCompanies (handleAddCompany toUpperCase D urlHostname detect st))
        = map domain (customCompanies st) @ [str ''HTTPS://example.com'']"
    if u: "newCompanyUrl st = str ''HTTPS://example.com''"
      and n: "str ''HTTPS://example.com'' \<notin> domain ` set (allCompanies D st)"
      and d: "detect (str ''HTTPS://example.com'') = Body p"
  proof -
    have 1: "trim (newCompanyUrl st) \<noteq> []" by (simp only: u t ne not_False_eq_True)
    have 2: "extractDomain urlHostname (newCompanyUrl st) = Some (str ''HTTPS://example.com'')"
      by (simp only: u e)
    have 3: "detect (trim (newCompanyUrl st)) = Body p" by (simp only: u t d)
    show ?thesis
      by (simp add: handleAddCompany_def
            actions_success[where detect = detect and toUpperCase = toUpperCase, OF 1 2 n 3]
            newCompany_eq)
  qed
  show ?thesis using a b c e by blast
qed

text \<open>
  The witness takes the upper-case scheme, and the lower-case scheme behind a no-break
  space, which \<open>trim\<close> removes before the scheme is looked for.
\<close>

theorem scheme_case_sensitive_witness:
  "extractDomain stripeHostname (str ''HTTP://www.Example.com'') = Some (str ''HTTP://Example.com'')
   \<and> extractDomain stripeHostname (160 # str ''https://www.stripe.com'') = Some (str ''stripe.com'')
   \<and> map domain
        (customCompanies
           (handleAddCompany exampleUpperCase exampleCatalog stripeHostname detectOther
              (initialState\<lparr>newCompanyUrl := str ''HTTPS://example.com''\<rparr>)))
       = [str ''HTTPS://example.com'']"
proof -
  let ?st = "initialState\<lparr>newCompanyUrl := str ''HTTPS://example.com''\<rparr>"
  have h1: "\<not> startsWith (trim (str ''HTTP://www.Example.com'')) (str ''http://'')
            \<and> \<not> startsWith (trim (str ''HTTP://www.Example.com'')) (str ''https://'')"
    by code_simp
  have r1: "replace (trim (str ''HTTP://www.Example.com'')) (str ''www.'') [] = str ''HTTP://Example.com''"
    by code_simp
  have h2: "startsWith (trim (160 # str ''https://www.stripe.com'')) (str ''https://'')" by code_simp
  have r2: "map_option (\<lambda>h. replace h (str ''www.'') [])
              (stripeHostname (trim (160 # str ''https://www.stripe.com'')))
            = Some (str ''stripe.com'')"
    by code_simp
  have h3: "newCompanyUrl ?st = str ''HTTPS://example.com''" by simp
  have h4: "str ''HTTPS://example.com'' \<notin> domain ` set (allCompanies exampleCatalog ?st)"
    by code_simp
  have h5: "detectOther (str ''HTTPS://example.com'') = Body (Str (str ''Other''))"
    by (simp add: detectOther_def)
  have c: "customCompanies ?st = []" by (simp add: initialState_def)
  show ?thesis
    using scheme_case_sensitive[where url = "str ''HTTP://www.Example.com''"
        and urlHostname = stripeHostname]
      scheme_case_sensitive[where url = "160 # str ''https://www.stripe.com''"
        and urlHostname = stripeHostname]
      scheme_case_sensitive[where st = ?st and D = exampleCatalog and detect = detectOther
        and urlHostname = stripeHostname and p = "Str (str ''Other'')"
        and toUpperCase = exampleUpperCase]
      h1 r1 h2 r2 h3 h4 h5 c
    by simp
qed

text \<open>
  C5. The claim says that \<open>www.\<close> is stripped only as a leading prefix. The source calls
  \<open>domain.replace("www.", "")\<close>, which removes the first occurrence wherever it is: a
  leading \<open>www.\<close> is removed as the claim says, but for the input \<open>ewww.io\<close> the extracted
  domain is \<open>eio\<close>, and that is what a successful add stores.
\<close>

theorem inner_www_removed:
  "extractDomain noHostname (str ''ewww.io'') = Some (str ''eio'')
   \<and> extractDomain noHostname (str ''www.stripe.com'') = Some (str ''stripe.com'')
   \<and> customCompanies
        (handleAddCompany exampleUpperCase exampleCatalog noHostname detectOther
           (initialState\<lparr>newCompanyUrl := str ''ewww.io''\<rparr>))
       = [\<lparr> name = str ''Eio'', symbol = str ''CUSTOM'', domain = str ''eio'',
             provider = Str (str ''Other'') \<rparr>]"
  by code_simp

text \<open>
  C7 (amended). \<open>providerCounts\<close> is computed from the whole catalog: it does not change
  with the search query, the sticky filter or the hovered provider, and under a key that
  is no property name of \<open>Object.prototype\<close> it holds the number of catalog companies of
  that key. When no company's provider is such a property name, all its values are
  numbers, its keys are distinct, and the values sum to the length of \<open>allCompanies\<close>.
\<close>

theorem providerCounts_total:
  "(plainKeys (allCompanies D st) \<longrightarrow>
      sumOfCounts (providerCounts protoText D st) = length (allCompanies D st)
      \<and> distinct (map fst (providerCounts protoText D st))
      \<and> list_all (\<lambda>(k, v). isNumber v) (providerCounts protoText D st))
   \<and> (k \<notin> set objectPrototypeNames \<longrightarrow>
      get_count (providerCounts protoText D st) k
        = (if countKey k (allCompanies D st) = 0 then NotFound
           else Own (PNum (countKey k (allCompanies D st)))))
   \<and> providerCounts protoText D (st\<lparr>searchQuery := q, selectedProvider := s, hoveredProvider := h\<rparr>)
       = providerCounts protoText D st"
proof -
  let ?all = "allCompanies D st"
  let ?pc = "providerCounts protoText D st"
  have pc: "?pc = foldl (countStep protoText) [] ?all" by (simp add: providerCounts_def)
  have a: "sumOfCounts ?pc = length ?all \<and> distinct (map fst ?pc) \<and> list_all (\<lambda>(k, v). isNumber v) ?pc"
    if p: "plainKeys ?all"
  proof -
    have "isNumber v" if "(k, v) \<in> set ?pc" for k v
    proof -
      have "k \<in> (\<lambda>c. toPropertyKey (provider c)) ` set ?all"
        using that keys_from_catalog unfolding pc by blast
      then have "k \<notin> set objectPrototypeNames" using p by (auto simp: plainKeys_def list_all_iff)
      then have "v = PNum (countKey k ?all)"
        using values_plain[OF p, of k v protoText] that unfolding pc by simp
      then show ?thesis by simp
    qed
    then have "list_all (\<lambda>(k, v). isNumber v) ?pc" by (auto simp: list_all_iff)
    then show ?thesis using counts_plain[OF p, of protoText] by (simp add: pc)
  qed
  have b: "get_count ?pc k = (if countKey k ?all = 0 then NotFound else Own (PNum (countKey k ?all)))"
    if "k \<notin> set objectPrototypeNames"
    using that lookup_plain[OF that, of protoText ?all] by (simp add: get_count_def pc)
  have d: "providerCounts protoText D (st\<lparr>searchQuery := q, selectedProvider := s, hoveredProvider := h\<rparr>)
       = ?pc"
    by (simp add: providerCounts_def allCompanies_def)
  show ?thesis using a b d by blast
qed

theorem providerCounts_total_witness:
  "plainKeys (allCompanies exampleCatalog initialState)
   \<and> providerCounts objectText exampleCatalog
      (initialState\<lparr>searchQuery := str ''net'', selectedProvider := Some (str ''AWS''),
                     hoveredProvider := Some (str ''Azure'')\<rparr>)
     = [(str ''AWS'', PNum 3), (str ''Azure'', PNum 1), (str ''Oracle'', PNum 1)]
   \<and> sumOfCounts (providerCounts objectText exampleCatalog initialState) = 5
   \<and> get_count (providerCounts objectText exampleCatalog initialState) (str ''AWS'') = Own (PNum 3)"
proof -
  have pk: "plainKeys (allCompanies exampleCatalog initialState)" by code_simp
  have p: "providerCounts objectText exampleCatalog initialState
      = [(str ''AWS'', PNum 3), (str ''Azure'', PNum 1), (str ''Oracle'', PNum 1)]"
    by code_simp
  have l: "length (allCompanies exampleCatalog initialState) = 5"
    by (simp add: allCompanies_def initialState_def exampleCatalog_def)
  have k: "str ''AWS'' \<notin> set objectPrototypeNames \<and> countKey (str ''AWS'') (allCompanies exampleCatalog initialState) = 3"
    by code_simp
  show ?thesis
    using providerCounts_total[where D = exampleCatalog and st = initialState
        and q = "str ''net''" and s = "Some (str ''AWS'')" and h = "Some (str ''Azure'')"
        and protoText = objectText and k = "str ''AWS''"] pk p l k
    by simp
qed

text \<open>
  The claim as stated fails for a catalog with a company whose provider is \<open>__proto__\<close>,
  an answer of the detector stored as it came: the assignment to that key stores nothing,
  and the values sum to 5 for 6 companies.
\<close>

theorem providerCounts_proto_counterexample:
  "allCompanies exampleCatalog (initialState\<lparr>customCompanies := [protoProvider]\<rparr>)
     = [netflix, reddit, slack, linkedin, zoom, protoProvider]
   \<and> providerCounts objectText exampleCatalog (initialState\<lparr>customCompanies := [protoProvider]\<rparr>)
     = [(str ''AWS'', PNum 3), (str ''Azure'', PNum 1), (str ''Oracle'', PNum 1)]
   \<and> sumOfCounts
       (providerCounts objectText exampleCatalog (initialState\<lparr>customCompanies := [protoProvider]\<rparr>))
     = 5
   \<and> length (allCompanies exampleCatalog (initialState\<lparr>customCompanies := [protoProvider]\<rparr>)) = 6"
  by code_simp

text \<open>
  C4 (amended). The number displayed is \<open>Math.round((k / n) * 100)\<close> in double
  arithmetic, the quotient rounded before it is multiplied, where \<open>k\<close> is the number of
  catalog companies whose provider is AWS, Azure or GCP and \<open>n\<close> is the length of the
  catalog (below \<open>2^53\<close>, as every array length is). There is no guard for \<open>n = 0\<close>:
  for the empty catalog the value is not-a-number.
\<close>

theorem bigThreePercent_unguarded:
  "(length (allCompanies D st) < 2 ^ 53 \<longrightarrow>
      bigThreePercent numberToString stringToNumber protoText D st =
        js_round
          (js_mul
             (js_div (Num (of_nat (length (filter isBigThree (allCompanies D st)))))
                (Num (of_nat (length (allCompanies D st)))))
             (Num 100)))
   \<and> (allCompanies D st = [] \<longrightarrow>
        bigThreePercent numberToString stringToNumber protoText D st = NaN)"
proof -
  let ?all = "allCompanies D st"
  have cz: "countOrZero protoText (providerCounts protoText D st) (str ''AWS'')
              = VNum (Num (of_nat (countKey (str ''AWS'') ?all)))"
           "countOrZero protoText (providerCounts protoText D st) (str ''Azure'')
              = VNum (Num (of_nat (countKey (str ''Azure'') ?all)))"
           "countOrZero protoText (providerCounts protoText D st) (str ''GCP'')
              = VNum (Num (of_nat (countKey (str ''GCP'') ?all)))"
    using big_three_plain by (simp_all add: countOrZero_plain)
  have big: "bigThreePercent numberToString stringToNumber protoText D st =
      js_round (js_mul (js_div (Num (of_nat (length (filter isBigThree ?all))))
        (Num (of_nat (length ?all)))) (Num 100))"
    if small: "length ?all < 2 ^ 53"
  proof -
    have le: "length (filter isBigThree ?all) \<le> length ?all" by simp
    have s3: "countKey (str ''AWS'') ?all + countKey (str ''Azure'') ?all + countKey (str ''GCP'') ?all
              = length (filter isBigThree ?all)"
      by (rule countKey_bigThree)
    have s2: "countKey (str ''AWS'') ?all + countKey (str ''Azure'') ?all < 2 ^ 53"
      using s3 le small by linarith
    have s3': "countKey (str ''AWS'') ?all + countKey (str ''Azure'') ?all + countKey (str ''GCP'') ?all < 2 ^ 53"
      using s3 le small by linarith
    have "toNumber stringToNumber
            (js_plus numberToString
               (js_plus numberToString (VNum (Num (of_nat (countKey (str ''AWS'') ?all))))
                  (VNum (Num (of_nat (countKey (str ''Azure'') ?all)))))
               (VNum (Num (of_nat (countKey (str ''GCP'') ?all)))))
          = Num (of_nat (length (filter isBigThree ?all)))"
      by (simp only: js_plus.simps toNumber.simps js_add_nat[OF s2] js_add_nat[OF s3'] s3)
    then show ?thesis
      by (simp only: bigThreePercent_def Let_def cz)
  qed
  have emp: "bigThreePercent numberToString stringToNumber protoText D st = NaN" if e: "?all = []"
  proof -
    have "length ?all < 2 ^ 53" by (simp add: e)
    then show ?thesis using big by (simp add: e)
  qed
  show ?thesis using big emp by blast
qed

theorem bigThreePercent_unguarded_witness:
  "bigThreePercent numberText textNumber objectText exampleCatalog initialState = Num 80
   \<and> bigThreePercent numberText textNumber objectText [] initialState = NaN"
proof -
  have a: "allCompanies exampleCatalog initialState = exampleCatalog"
    by (simp add: allCompanies_def initialState_def)
  have n: "length exampleCatalog = 5" by (simp add: exampleCatalog_def)
  have k: "length (filter isBigThree exampleCatalog) = 4" by code_simp
  have v: "js_round (js_mul (js_div (Num 4) (Num 5)) (Num 100)) = Num 80" by code_simp
  have e: "allCompanies [] initialState = []" by (simp add: allCompanies_def initialState_def)
  show ?thesis
    using bigThreePercent_unguarded[of exampleCatalog initialState numberText textNumber objectText]
      bigThreePercent_unguarded[of "[]" initialState numberText textNumber objectText] a n k v e
    by simp
qed

text \<open>
  The claim as stated fails for the empty catalog: the total is 0, and the value is
  not-a-number, not 0. It also fails for 23 companies of AWS among 40: the value is 57,
  and \<open>round(100 * 23 / 40)\<close> is 58.
\<close>

theorem bigThreePercent_empty_counterexample:
  "length (allCompanies [] initialState) = 0
   \<and> bigThreePercent numberText textNumber objectText [] initialState = NaN
   \<and> bigThreePercent numberText textNumber objectText [] initialState \<noteq> Num 0
   \<and> length (allCompanies fortyCompanies initialState) = 40
   \<and> length (filter isBigThree (allCompanies fortyCompanies initialState)) = 23
   \<and> bigThreePercent numberText textNumber objectText fortyCompanies initialState = Num 57
   \<and> \<lfloor>(100 * 23 / 40 :: rat) + 1 / 2\<rfloor> = 58"
  by code_simp

end
